theory Spec2Isabelle
  imports Complex_Main "HOL-Library.Word"
begin

section \<open>Arrays, parameter trees and the precision casts\<close>

text \<open>
  A JAX array is modelled by its element type and its flattened elements. The elements
  are values of a type \<open>'v\<close> that the model leaves open: the numbers of the floating-point
  formats, with their infinities and their not-a-number. A conversion \<open>astype\<close> changes
  every element by the rounding \<open>rnd d\<close> into the format \<open>d\<close>, a parameter of the model (it
  belongs to the array library, not to this repository).

  A parameter tree (a pytree of arrays) is modelled by its flattening: the list of its
  leaves, each with the path that names it. \<open>jax.tree_map\<close> keeps paths and order.
\<close>

datatype dtype = Float32 | BFloat16 | Int32

record 'v array =
  arr_dtype :: dtype
  arr_data :: "'v list"

type_synonym 'v tree = "(string \<times> 'v array) list"

datatype error = TypeError | ValueError | AssertionError | ZeroDivisionError

definition astype :: "(dtype \<Rightarrow> 'v \<Rightarrow> 'v) \<Rightarrow> dtype \<Rightarrow> 'v array \<Rightarrow> 'v array" where
  "astype rnd d x = \<lparr>arr_dtype = d, arr_data = map (rnd d) (arr_data x)\<rparr>"

definition tree_map :: "('v array \<Rightarrow> 'v array) \<Rightarrow> 'v tree \<Rightarrow> 'v tree" where
  "tree_map f t = map (\<lambda>(k, x). (k, f x)) t"

definition to_f32 :: "(dtype \<Rightarrow> 'v \<Rightarrow> 'v) \<Rightarrow> 'v tree \<Rightarrow> 'v tree" where
  "to_f32 rnd t =
     tree_map (\<lambda>x. if arr_dtype x = BFloat16 then astype rnd Float32 x else x) t"

definition to_bf16 :: "(dtype \<Rightarrow> 'v \<Rightarrow> 'v) \<Rightarrow> 'v tree \<Rightarrow> 'v tree" where
  "to_bf16 rnd t =
     tree_map (\<lambda>x. if arr_dtype x = Float32 then astype rnd BFloat16 x else x) t"

text \<open>
  A rounding used to run the model on concrete inputs: the 16-bit format keeps eight
  significant bits, so on the interval from 1 to 2 its values are the multiples of
  \<open>1/128\<close>; the 32-bit format is kept exact here.
\<close>

definition round128 :: "dtype \<Rightarrow> real \<Rightarrow> real" where
  "round128 d x = (if d = BFloat16 then of_int (round (x * 128)) / 128 else x)"


section \<open>Tensors, linear maps and layer normalisation\<close>

text \<open>
  A vector is a list of reals and a matrix a list of rows. The weight of a linear layer has
  one row per input feature, each with one entry per output feature, as the layer
  library stores it. The output size of a layer is given at construction, so it is an
  argument of the model too.
\<close>

type_synonym vec = "real list"
type_synonym mat = "real list list"

record linear =
  lin_w :: mat
  lin_b :: vec

record layer_norm =
  ln_scale :: vec
  ln_offset :: vec

definition vecmat :: "nat \<Rightarrow> vec \<Rightarrow> mat \<Rightarrow> vec" where
  "vecmat n x W = map (\<lambda>j. sum_list (map (\<lambda>(xi, row). xi * row ! j) (zip x W))) [0..<n]"

definition Linear :: "nat \<Rightarrow> linear \<Rightarrow> vec \<Rightarrow> vec" where
  "Linear n p x = map2 (+) (vecmat n x (lin_w p)) (lin_b p)"

definition Linear_nobias :: "nat \<Rightarrow> mat \<Rightarrow> vec \<Rightarrow> vec" where
  "Linear_nobias n W x = vecmat n x W"

definition LayerNorm :: "layer_norm \<Rightarrow> vec \<Rightarrow> vec" where
  "LayerNorm p x =
     (let n = real (length x);
          mean = sum_list x / n;
          variance = sum_list (map (\<lambda>v. (v - mean)\<^sup>2) x) / n;
          inv = map (\<lambda>s. s * (1 / sqrt (variance + 1 / 100000))) (ln_scale p)
      in map2 (+) (map2 (\<lambda>i v. i * (v - mean)) inv x) (ln_offset p))"

definition gelu :: "real \<Rightarrow> real" where
  "gelu x = x / 2 * (1 + tanh (sqrt (2 / pi) * (x + 44715 / 1000000 * x ^ 3)))"

definition vmax :: "vec \<Rightarrow> real" where
  "vmax xs = fold max (tl xs) (hd xs)"

definition softmax :: "vec \<Rightarrow> vec" where
  "softmax xs =
     (let unnormalized = map (\<lambda>v. exp (v - vmax xs)) xs
      in map (\<lambda>u. u / sum_list unnormalized) unnormalized)"

definition madd :: "mat \<Rightarrow> mat \<Rightarrow> mat" where
  "madd A B = map2 (map2 (+)) A B"


section \<open>Collectives over the shard axis\<close>

text \<open>
  The program runs once per shard, in lockstep. The model holds the value of every shard
  in a list indexed by the shard number; a collective takes the list of the local values
  and returns the list of the results, the same on every shard.
\<close>

definition across :: "(real list \<Rightarrow> real) \<Rightarrow> vec list \<Rightarrow> vec" where
  "across f vs =
     (case vs of [] \<Rightarrow> [] | v # _ \<Rightarrow> map (\<lambda>t. f (map (\<lambda>u. u ! t) vs)) [0..<length v])"

definition psum :: "vec list \<Rightarrow> vec list" where
  "psum vs = replicate (length vs) (across sum_list vs)"

definition pmax :: "vec list \<Rightarrow> vec list" where
  "pmax vs = replicate (length vs) (across vmax vs)"

definition pmean :: "mat list \<Rightarrow> mat list" where
  "pmean ms =
     replicate (length ms)
       (case ms of [] \<Rightarrow> []
        | m # _ \<Rightarrow>
            map (\<lambda>t. map (\<lambda>j. sum_list (map (\<lambda>m'. m' ! t ! j) ms) / real (length ms))
                          [0..<length (m ! t)])
                [0..<length m])"

definition all_gather :: "mat list \<Rightarrow> mat list list" where
  "all_gather ms = replicate (length ms) ms"


section \<open>The sharded embedding\<close>

record EmbeddingShard =
  emb_in_dim :: nat
  emb_out_dim :: nat
  emb_dim_per_shard :: nat
  emb_shards :: nat

definition EmbeddingShard_init :: "nat \<Rightarrow> nat \<Rightarrow> nat \<Rightarrow> error + EmbeddingShard" where
  "EmbeddingShard_init in_dim out_dim shards =
     (if shards = 0 then Inl ZeroDivisionError
      else if in_dim mod shards \<noteq> 0 then Inl AssertionError
      else Inr \<lparr>emb_in_dim = in_dim, emb_out_dim = out_dim,
                emb_dim_per_shard = in_dim div shards, emb_shards = shards\<rparr>)"

text \<open>
  \<open>EmbeddingShard_proj_out\<close> is the value of \<open>proj_out\<close> on the shard \<open>axis_index\<close>, whose
  projection has the parameters \<open>p\<close>; \<open>EmbeddingShard_call\<close> is the call on all shards,
  with the mean over the shard axis that ends it.
\<close>

definition EmbeddingShard_proj_out :: "EmbeddingShard \<Rightarrow> linear \<Rightarrow> nat \<Rightarrow> int list \<Rightarrow> mat" where
  "EmbeddingShard_proj_out m p axis_index x =
     (let shard_start_index = int axis_index * int (emb_dim_per_shard m);
          shard_index = map (\<lambda>i. int i + shard_start_index) [0..<emb_dim_per_shard m]
      in map (\<lambda>tok. Linear (emb_out_dim m) p
                        (map (\<lambda>idx. if idx = tok then 1 else 0) shard_index)) x)"

definition EmbeddingShard_call :: "EmbeddingShard \<Rightarrow> linear list \<Rightarrow> int list \<Rightarrow> mat list" where
  "EmbeddingShard_call m ps x =
     pmean (map (\<lambda>(p, axis_index). EmbeddingShard_proj_out m p axis_index x)
                (zip ps [0..<length ps]))"


section \<open>The sharded transformer block\<close>

record TransformerLayerShard =
  tl_dim :: nat
  tl_dim_per_head :: nat
  tl_heads_per_shard :: nat
  tl_dim_per_shard :: nat

record layer_params =
  lp_ln :: layer_norm
  lp_q :: mat
  lp_v :: mat
  lp_k :: mat
  lp_o :: mat
  lp_dense_proj :: linear
  lp_dense_proj_o :: linear

definition TransformerLayerShard_init :: "nat \<Rightarrow> nat \<Rightarrow> nat \<Rightarrow> error + TransformerLayerShard" where
  "TransformerLayerShard_init dim' heads shards =
     (if heads = 0 then Inl ZeroDivisionError
      else if dim' mod heads \<noteq> 0 then Inl AssertionError
      else if shards = 0 then Inl ZeroDivisionError
      else if heads mod shards \<noteq> 0 then Inl AssertionError
      else Inr \<lparr>tl_dim = dim', tl_dim_per_head = dim' div heads,
                tl_heads_per_shard = heads div shards, tl_dim_per_shard = dim' div shards\<rparr>)"

text \<open>
  \<open>split_heads\<close> is the reshape of a row of \<open>heads_per_shard * dim_per_head\<close> entries into
  its heads.
\<close>

definition split_heads :: "TransformerLayerShard \<Rightarrow> vec \<Rightarrow> mat" where
  "split_heads c v =
     map (\<lambda>h. take (tl_dim_per_head c) (drop (h * tl_dim_per_head c) v))
         [0..<tl_heads_per_shard c]"

text \<open>
  \<open>attention_weights\<close> is the value of the variable of that name on one shard: for each
  head, for each query position, the weights over the key positions. The branch on the
  mask is the source's: with no mask the addition of \<open>None\<close> to an array is a type error;
  with a mask the addition is not executed. The maximum inside the softmax is rejected
  on an empty key axis.
\<close>

definition attention_weights ::
  "TransformerLayerShard \<Rightarrow> layer_params \<Rightarrow> mat \<Rightarrow> mat option \<Rightarrow> error + mat list" where
  "attention_weights c p x0 mask' =
     (let x = map (LayerNorm (lp_ln p)) x0;
          q = map (\<lambda>xt. split_heads c (Linear_nobias (tl_dim_per_shard c) (lp_q p) xt)) x;
          k = map (\<lambda>xt. split_heads c (Linear_nobias (tl_dim_per_shard c) (lp_k p) xt)) x;
          attention_logits =
            map (\<lambda>h. map (\<lambda>qt. map (\<lambda>kT. sum_list (map2 (*) (qt ! h) (kT ! h))) k) q)
                [0..<tl_heads_per_shard c];
          sqrt_key_size = sqrt (real (tl_dim_per_head c));
          attention_logits = map (map (map (\<lambda>l. l / sqrt_key_size))) attention_logits
      in case mask' of
           None \<Rightarrow> Inl TypeError
         | Some _ \<Rightarrow>
             if x0 = [] then Inl ValueError
             else Inr (map (map softmax) attention_logits))"

definition dense_out :: "TransformerLayerShard \<Rightarrow> layer_params \<Rightarrow> mat \<Rightarrow> mat" where
  "dense_out c p x0 =
     (let x = map (LayerNorm (lp_ln p)) x0;
          dense_proj = map (Linear (tl_dim_per_shard c * 4) (lp_dense_proj p)) x;
          dense_proj = map (map gelu) dense_proj
      in map (Linear (tl_dim c) (lp_dense_proj_o p)) dense_proj)"

definition attn_out ::
  "TransformerLayerShard \<Rightarrow> layer_params \<Rightarrow> mat \<Rightarrow> mat list \<Rightarrow> mat" where
  "attn_out c p x0 weights =
     (let x = map (LayerNorm (lp_ln p)) x0;
          v = map (\<lambda>xt. split_heads c (Linear_nobias (tl_dim_per_shard c) (lp_v p) xt)) x;
          attention_vec =
            map (\<lambda>t. concat (map (\<lambda>h. vecmat (tl_dim_per_head c) (weights ! h ! t)
                                             (map (\<lambda>vT. vT ! h) v))
                                 [0..<tl_heads_per_shard c]))
                [0..<length x]
      in map (Linear_nobias (tl_dim c) (lp_o p)) attention_vec)"

definition TransformerLayerShard_local ::
  "TransformerLayerShard \<Rightarrow> layer_params \<Rightarrow> mat \<Rightarrow> mat option \<Rightarrow> error + mat" where
  "TransformerLayerShard_local c p x mask' =
     (case attention_weights c p x mask' of
        Inl e \<Rightarrow> Inl e
      | Inr w \<Rightarrow> Inr (madd (attn_out c p x w) (dense_out c p x)))"

fun collect :: "(error + 'a) list \<Rightarrow> error + 'a list" where
  "collect [] = Inr []"
| "collect (Inl e # _) = Inl e"
| "collect (Inr y # rs) = (case collect rs of Inl e \<Rightarrow> Inl e | Inr ys \<Rightarrow> Inr (y # ys))"

definition TransformerLayerShard_call ::
  "TransformerLayerShard \<Rightarrow> layer_params list \<Rightarrow> mat list \<Rightarrow> mat option \<Rightarrow> error + mat list" where
  "TransformerLayerShard_call c ps xs mask' =
     (case collect (map (\<lambda>(p, x). TransformerLayerShard_local c p x mask') (zip ps xs)) of
        Inl e \<Rightarrow> Inl e
      | Inr outs \<Rightarrow> Inr (pmean outs))"

text \<open>The mask that the model stack builds for a sequence of \<open>n\<close> positions.\<close>

definition causal_mask :: "nat \<Rightarrow> mat" where
  "causal_mask n = map (\<lambda>i. map (\<lambda>j. if i < j then 0 - 100000000000 else 0) [0..<n]) [0..<n]"


section \<open>The sharded output head\<close>

record ProjectionShard =
  pj_dim :: nat
  pj_dim_per_shard :: nat
  pj_shards :: nat

record projection_params =
  pp_ln :: layer_norm
  pp_proj :: linear

definition ProjectionShard_init :: "nat \<Rightarrow> nat \<Rightarrow> error + ProjectionShard" where
  "ProjectionShard_init out_dim shards =
     (if shards = 0 then Inl ZeroDivisionError
      else if out_dim mod shards \<noteq> 0 then Inl AssertionError
      else Inr \<lparr>pj_dim = out_dim, pj_dim_per_shard = out_dim div shards, pj_shards = shards\<rparr>)"

text \<open>
  The call gathers the slices of all shards: on every shard the result has, for each
  position, the slices in shard order, flattened.
\<close>

definition ProjectionShard_call ::
  "ProjectionShard \<Rightarrow> projection_params list \<Rightarrow> mat list \<Rightarrow> mat list" where
  "ProjectionShard_call c ps xs =
     (let proj = map (\<lambda>(p, x). map (Linear (pj_dim_per_shard c) (pp_proj p))
                                    (map (LayerNorm (pp_ln p)) x)) (zip ps xs);
          all_proj = all_gather proj
      in map (\<lambda>gathered.
                map (\<lambda>t. concat (map (\<lambda>pr. pr ! t) gathered))
                    [0..<(case gathered of [] \<Rightarrow> 0 | pr # _ \<Rightarrow> length pr)])
             all_proj)"

text \<open>
  The loss on all shards, each with its own copy \<open>xs ! s\<close> of the activations; the
  result is the list, over the shards, of the loss of every position. The activations
  and the targets have the same number of positions. The maximum over an empty slice is
  rejected.
\<close>

definition ProjectionShard_loss ::
  "ProjectionShard \<Rightarrow> projection_params list \<Rightarrow> mat list \<Rightarrow> int list \<Rightarrow> error + vec list" where
  "ProjectionShard_loss c ps xs targets =
     (if pj_dim_per_shard c = 0 then Inl ValueError
      else
        let shard_logits = map (\<lambda>(p, x). map (Linear (pj_dim_per_shard c) (pp_proj p)) x)
                               (zip ps xs);
            gt_onehot =
              map (\<lambda>axis_index.
                     let shard_start_index = int axis_index * int (pj_dim_per_shard c);
                         shard_index = map (\<lambda>i. int i + shard_start_index)
                                           [0..<pj_dim_per_shard c]
                     in map (\<lambda>tgt. map (\<lambda>idx. if idx = tgt then 1 else 0) shard_index)
                            targets)
                  [0..<length ps];
            global_max = pmax (map (map vmax) shard_logits);
            shifted = map2 (\<lambda>lg gm. map2 (\<lambda>row m. map (\<lambda>l. l - m) row) lg gm)
                           shard_logits global_max;
            normalizer = psum (map (map (\<lambda>row. sum_list (map exp row))) shifted);
            logsoftmax = map2 (\<lambda>sh nz. map2 (\<lambda>row z. map (\<lambda>l. l - ln z) row) sh nz)
                              shifted normalizer
        in Inr (psum (map2 (\<lambda>oh ls. map2 (\<lambda>g l. - sum_list (map2 (*) g l)) oh ls)
                           gt_onehot logsoftmax)))"

text \<open>
  The reference for the loss: the numerically stable log-softmax cross-entropy of one
  position, computed on one device from the whole vector of logits.
\<close>

definition naive_cross_entropy :: "vec \<Rightarrow> int \<Rightarrow> real" where
  "naive_cross_entropy logits tgt =
     (let shifted = map (\<lambda>l. l - vmax logits) logits;
          logsoftmax = map (\<lambda>l. l - ln (sum_list (map exp shifted))) shifted;
          onehot = map (\<lambda>i. if int i = tgt then 1 else 0) [0..<length logits]
      in - sum_list (map2 (*) onehot logsoftmax))"


section \<open>The model stack\<close>

record CausalTransformerShard =
  cts_embed :: EmbeddingShard
  cts_transformer_layers :: "TransformerLayerShard list"
  cts_proj :: ProjectionShard

text \<open>The parameters of the stack, each with its shard axis in front.\<close>

record model_params =
  mp_embed :: "linear list"
  mp_layers :: "layer_params list list"
  mp_proj :: "projection_params list"

definition CausalTransformerShard_init ::
  "nat \<Rightarrow> nat \<Rightarrow> nat \<Rightarrow> nat \<Rightarrow> nat \<Rightarrow> error + CausalTransformerShard" where
  "CausalTransformerShard_init dim' heads layer_count vocab shards =
     (case EmbeddingShard_init vocab dim' shards of
        Inl e \<Rightarrow> Inl e
      | Inr embed' \<Rightarrow>
          if layer_count = 0 then Inl ZeroDivisionError
          else case collect (replicate layer_count (TransformerLayerShard_init dim' heads shards)) of
                 Inl e \<Rightarrow> Inl e
               | Inr layers \<Rightarrow>
                   (case ProjectionShard_init vocab shards of
                      Inl e \<Rightarrow> Inl e
                    | Inr proj \<Rightarrow>
                        Inr \<lparr>cts_embed = embed', cts_transformer_layers = layers,
                             cts_proj = proj\<rparr>))"

fun run_layers ::
  "(TransformerLayerShard \<times> layer_params list) list \<Rightarrow> mat \<Rightarrow> mat list \<Rightarrow> error + mat list" where
  "run_layers [] mask' xs = Inr xs"
| "run_layers ((l, ps) # ls) mask' xs =
     (case TransformerLayerShard_call l ps xs (Some mask') of
        Inl e \<Rightarrow> Inl e
      | Inr outs \<Rightarrow> run_layers ls mask' (map2 madd xs outs))"

definition CausalTransformerShard_eval ::
  "CausalTransformerShard \<Rightarrow> model_params \<Rightarrow> int list \<Rightarrow> int list \<Rightarrow> error + vec list" where
  "CausalTransformerShard_eval c ps context' target =
     (let x = EmbeddingShard_call (cts_embed c) (mp_embed ps) context';
          mask' = causal_mask (length context')
      in case run_layers (zip (cts_transformer_layers c) (mp_layers ps)) mask' x of
           Inl e \<Rightarrow> Inl e
         | Inr x \<Rightarrow> ProjectionShard_loss (cts_proj c) (mp_proj ps) x target)"

definition train_loss ::
  "CausalTransformerShard \<Rightarrow> model_params \<Rightarrow> int list \<Rightarrow> int list \<Rightarrow> error + real list" where
  "train_loss c ps ctx tgt =
     (case CausalTransformerShard_eval c ps ctx tgt of
        Inl e \<Rightarrow> Inl e
      | Inr losses \<Rightarrow> Inr (map (\<lambda>l. sum_list l / real (length l)) losses))"


section \<open>The training state\<close>

text \<open>
  The state on the accelerators and the state on the host. The trees hold the shard axis
  inside their leaves. The step counter is a 32-bit integer of the array library, whose
  addition wraps around. The optimizer, the loss as a function of the parameter tree and
  the derivative of a function of a tree belong to libraries and are parameters of the
  model; the loss has values of a type \<open>'l\<close>.
\<close>

record 'v tpu_state =
  ts_params :: "'v tree"
  ts_step :: "32 word"
  ts_grad :: "'v tree"

record ('v, 'o) cpu_state =
  cs_opt_state :: 'o
  cs_params :: "'v tree"

record ('v, 'o) optimizer =
  opt_init :: "'v tree \<Rightarrow> 'o"
  opt_update :: "'v tree \<Rightarrow> 'o \<Rightarrow> 'v tree \<times> 'o"

record ('v, 'o) CausalTransformer =
  ct_tpu_state :: "'v tpu_state"
  ct_cpu_state :: "('v, 'o) cpu_state"

text \<open>
  The arithmetic of the array library on the elements of a format \<open>d\<close>, a parameter of the
  model: the zero of the format, the sum of two of its values, the quotient of one of its
  values by an integer count (defined by the library for every count, zero too), and the
  sum that an all-reduce forms of the values of the participants. Each operation takes
  values of the format \<open>d\<close> and returns one.
\<close>

record 'v arith =
  ar_zero :: "dtype \<Rightarrow> 'v"
  ar_add :: "dtype \<Rightarrow> 'v \<Rightarrow> 'v \<Rightarrow> 'v"
  ar_div :: "dtype \<Rightarrow> 'v \<Rightarrow> int \<Rightarrow> 'v"
  ar_sum :: "dtype \<Rightarrow> 'v list \<Rightarrow> 'v"

text \<open>
  The arithmetic used to run the model on concrete inputs: the real operation, its result
  rounded into the format.
\<close>

definition rounded_arith :: "(dtype \<Rightarrow> real \<Rightarrow> real) \<Rightarrow> real arith" where
  "rounded_arith rnd =
     \<lparr>ar_zero = (\<lambda>d. 0),
      ar_add = (\<lambda>d x y. rnd d (x + y)),
      ar_div = (\<lambda>d x n. rnd d (x / real_of_int n)),
      ar_sum = (\<lambda>d xs. rnd d (sum_list xs))\<rparr>"

definition zeros_like :: "'v arith \<Rightarrow> 'v array \<Rightarrow> 'v array" where
  "zeros_like ar a =
     \<lparr>arr_dtype = arr_dtype a,
      arr_data = replicate (length (arr_data a)) (ar_zero ar (arr_dtype a))\<rparr>"

definition promote_types :: "dtype \<Rightarrow> dtype \<Rightarrow> dtype" where
  "promote_types a b =
     (if a = b then a else if a = Int32 then b else if b = Int32 then a else Float32)"

text \<open>
  The sum of two arrays of one shape: both are brought to the promoted format, then added
  in it. Arrays of different sizes are rejected (the model does not describe
  broadcasting, which the training state never needs).
\<close>

definition array_add ::
  "(dtype \<Rightarrow> 'v \<Rightarrow> 'v) \<Rightarrow> 'v arith \<Rightarrow> 'v array \<Rightarrow> 'v array \<Rightarrow> error + 'v array" where
  "array_add rnd ar a b =
     (if length (arr_data a) \<noteq> length (arr_data b) then Inl TypeError
      else
        let d = promote_types (arr_dtype a) (arr_dtype b)
        in Inr \<lparr>arr_dtype = d,
                 arr_data =
                   map2 (\<lambda>x y. ar_add ar d (if arr_dtype a = d then x else rnd d x)
                                            (if arr_dtype b = d then y else rnd d y))
                        (arr_data a) (arr_data b)\<rparr>)"

fun tree_multimap ::
  "('v array \<Rightarrow> 'v array \<Rightarrow> error + 'v array) \<Rightarrow> 'v tree \<Rightarrow> 'v tree \<Rightarrow> error + 'v tree" where
  "tree_multimap f [] [] = Inr []"
| "tree_multimap f ((k, a) # as) ((k', b) # bs) =
     (if k \<noteq> k' then Inl ValueError
      else case f a b of
             Inl e \<Rightarrow> Inl e
           | Inr c \<Rightarrow> (case tree_multimap f as bs of
                          Inl e \<Rightarrow> Inl e
                        | Inr cs \<Rightarrow> Inr ((k, c) # cs)))"
| "tree_multimap f _ _ = Inl ValueError"

text \<open>
  The mean over the data axis of the gradients of the replicas, leaf by leaf and element
  by element: the all-reduce sum, divided by the number of replicas. All replicas run one
  program, so their trees have one structure.
\<close>

definition pmean_batch :: "'v arith \<Rightarrow> 'v tree list \<Rightarrow> 'v tree" where
  "pmean_batch ar gs =
     (case gs of [] \<Rightarrow> []
      | g # _ \<Rightarrow>
          map (\<lambda>i. (fst (g ! i),
                     \<lparr>arr_dtype = arr_dtype (snd (g ! i)),
                      arr_data =
                        map (\<lambda>j. ar_div ar (arr_dtype (snd (g ! i)))
                                    (ar_sum ar (arr_dtype (snd (g ! i)))
                                       (map (\<lambda>h. arr_data (snd (h ! i)) ! j) gs))
                                    (int (length gs)))
                            [0..<length (arr_data (snd (g ! i)))]\<rparr>))
              [0..<length g])"

definition value_and_grad ::
  "(('v tree \<Rightarrow> 'c \<Rightarrow> 't \<Rightarrow> 'l) \<Rightarrow> 'v tree \<Rightarrow> 'c \<Rightarrow> 't \<Rightarrow> 'v tree)
   \<Rightarrow> ('v tree \<Rightarrow> 'c \<Rightarrow> 't \<Rightarrow> 'l) \<Rightarrow> 'v tree \<Rightarrow> 'c \<Rightarrow> 't \<Rightarrow> 'l \<times> 'v tree" where
  "value_and_grad grad_op f p ctx tgt = (f p ctx tgt, grad_op f p ctx tgt)"

definition train ::
  "(dtype \<Rightarrow> 'v \<Rightarrow> 'v) \<Rightarrow> 'v arith
   \<Rightarrow> (('v tree \<Rightarrow> 'c \<Rightarrow> 't \<Rightarrow> 'l) \<Rightarrow> 'v tree \<Rightarrow> 'c \<Rightarrow> 't \<Rightarrow> 'v tree)
   \<Rightarrow> ('v tree \<Rightarrow> 'c \<Rightarrow> 't \<Rightarrow> 'l)
   \<Rightarrow> 'v tpu_state \<Rightarrow> 'c list \<Rightarrow> 't list \<Rightarrow> error + 'l list \<times> 'v tpu_state" where
  "train rnd ar grad_op train_loss_fn state ctx tgt =
     (let results = map (\<lambda>(c, t). value_and_grad grad_op train_loss_fn
                                     (to_bf16 rnd (ts_params state)) c t) (zip ctx tgt);
          grad = pmean_batch ar (map snd results)
      in case tree_multimap (array_add rnd ar) (ts_grad state) grad of
           Inl e \<Rightarrow> Inl e
         | Inr acc \<Rightarrow>
             Inr (map fst results,
                  \<lparr>ts_params = ts_params state, ts_step = ts_step state + 1, ts_grad = acc\<rparr>))"

text \<open>
  Modelled from the spec: the initialiser of the parameters,
  \<open>hk.transform(train_loss).init\<close>, which belongs to the layer library and is not among the
  sources. The spec's data model gives the parameters on the accelerators in reduced
  precision, and its \<open>initialize\<close> casts the freshly initialised parameters to wide
  precision for the host. In the code the input of the embedding's projection is the
  one-hot matrix cast to \<open>dtype\<close>, \<open>bfloat16\<close> by default (\<open>EmbeddingShard_dtype\<close>); the
  layer library creates each parameter in the element type of the input of its layer,
  with the values its initialiser draws in that type, and every layer of the stack
  returns activations of the type it received. The draws \<open>initializers key\<close>, one list of
  values per parameter path, are a parameter of the model.
\<close>

definition EmbeddingShard_dtype :: dtype where
  "EmbeddingShard_dtype = BFloat16"

definition get_parameter ::
  "(dtype \<Rightarrow> 'v \<Rightarrow> 'v) \<Rightarrow> dtype \<Rightarrow> string \<times> 'v list \<Rightarrow> string \<times> 'v array" where
  "get_parameter rnd d nv = (fst nv, \<lparr>arr_dtype = d, arr_data = map (rnd d) (snd nv)\<rparr>)"

definition param_init_fn ::
  "(dtype \<Rightarrow> 'v \<Rightarrow> 'v) \<Rightarrow> ('k \<Rightarrow> (string \<times> 'v list) list) \<Rightarrow> 'k \<Rightarrow> 'c \<Rightarrow> 'c \<Rightarrow> 'v tree" where
  "param_init_fn rnd initializers key x y =
     map (get_parameter rnd EmbeddingShard_dtype) (initializers key)"

definition init ::
  "(dtype \<Rightarrow> 'v \<Rightarrow> 'v) \<Rightarrow> 'v arith \<Rightarrow> ('k \<Rightarrow> (string \<times> 'v list) list) \<Rightarrow> 'k \<Rightarrow> 'c
   \<Rightarrow> 'v tpu_state" where
  "init rnd ar initializers key x =
     (let params = param_init_fn rnd initializers key x x
      in \<lparr>ts_params = params, ts_step = 0, ts_grad = tree_map (zeros_like ar) params\<rparr>)"

definition set_tpu_state ::
  "(dtype \<Rightarrow> 'v \<Rightarrow> 'v) \<Rightarrow> 'v arith \<Rightarrow> 'v tree \<Rightarrow> 'v tpu_state \<Rightarrow> 'v tpu_state" where
  "set_tpu_state rnd ar new_params old_state =
     \<lparr>ts_params = to_bf16 rnd new_params, ts_step = ts_step old_state,
      ts_grad = tree_map (zeros_like ar) (ts_grad old_state)\<rparr>"

text \<open>
  \<open>cpu_init_jit\<close> and \<open>cpu_update_jit\<close> are closures of the object: the argument
  \<open>self_tpu_state\<close> of the model is the field of the enclosing object that their bodies
  read; \<open>tpu_state'\<close> is their own parameter of that name.
\<close>

definition cpu_init_jit ::
  "(dtype \<Rightarrow> 'v \<Rightarrow> 'v) \<Rightarrow> ('v, 'o) optimizer \<Rightarrow> 'v tpu_state \<Rightarrow> 'v tpu_state
   \<Rightarrow> ('v, 'o) cpu_state" where
  "cpu_init_jit rnd optimizer self_tpu_state tpu_state' =
     (let fp32_params = to_f32 rnd (ts_params self_tpu_state)
      in \<lparr>cs_opt_state = opt_init optimizer fp32_params, cs_params = fp32_params\<rparr>)"

definition CausalTransformer_init ::
  "(dtype \<Rightarrow> 'v \<Rightarrow> 'v) \<Rightarrow> 'v arith \<Rightarrow> ('k \<Rightarrow> (string \<times> 'v list) list)
   \<Rightarrow> ('v, 'o) optimizer \<Rightarrow> 'k \<Rightarrow> 'c \<Rightarrow> ('v, 'o) CausalTransformer" where
  "CausalTransformer_init rnd ar initializers optimizer key x =
     (let tpu = init rnd ar initializers key x
      in \<lparr>ct_tpu_state = tpu, ct_cpu_state = cpu_init_jit rnd optimizer tpu tpu\<rparr>)"

definition CausalTransformer_train ::
  "(dtype \<Rightarrow> 'v \<Rightarrow> 'v) \<Rightarrow> 'v arith
   \<Rightarrow> (('v tree \<Rightarrow> 'c \<Rightarrow> 't \<Rightarrow> 'l) \<Rightarrow> 'v tree \<Rightarrow> 'c \<Rightarrow> 't \<Rightarrow> 'v tree)
   \<Rightarrow> ('v tree \<Rightarrow> 'c \<Rightarrow> 't \<Rightarrow> 'l)
   \<Rightarrow> ('v, 'o) CausalTransformer \<Rightarrow> 'c list \<Rightarrow> 't list
   \<Rightarrow> error + 'l list \<times> ('v, 'o) CausalTransformer" where
  "CausalTransformer_train rnd ar grad_op train_loss_fn self obs target =
     (case train rnd ar grad_op train_loss_fn (ct_tpu_state self) obs target of
        Inl e \<Rightarrow> Inl e
      | Inr (loss, new_state) \<Rightarrow> Inr (loss, self\<lparr>ct_tpu_state := new_state\<rparr>))"

text \<open>
  The division of the gradient by the accumulation count, in the format of the gradient:
  the leaves of the accumulator are of a floating-point format, which the quotient by an
  integer count keeps. The update of the parameters adds the update to the parameter and
  casts the sum to the format of the parameter.
\<close>

definition array_div :: "'v arith \<Rightarrow> 'v array \<Rightarrow> int \<Rightarrow> 'v array" where
  "array_div ar a n =
     \<lparr>arr_dtype = arr_dtype a,
      arr_data = map (\<lambda>v. ar_div ar (arr_dtype a) v n) (arr_data a)\<rparr>"

definition apply_updates ::
  "(dtype \<Rightarrow> 'v \<Rightarrow> 'v) \<Rightarrow> 'v arith \<Rightarrow> 'v tree \<Rightarrow> 'v tree \<Rightarrow> error + 'v tree" where
  "apply_updates rnd ar params updates =
     tree_multimap
       (\<lambda>p u. case array_add rnd ar p u of
                 Inl e \<Rightarrow> Inl e
               | Inr s \<Rightarrow> Inr (if arr_dtype s = arr_dtype p then s else astype rnd (arr_dtype p) s))
       params updates"

definition cpu_update_jit ::
  "(dtype \<Rightarrow> 'v \<Rightarrow> 'v) \<Rightarrow> 'v arith \<Rightarrow> ('v, 'o) optimizer \<Rightarrow> 'v tpu_state
   \<Rightarrow> ('v, 'o) cpu_state \<Rightarrow> 'v tpu_state \<Rightarrow> int \<Rightarrow> error + ('v, 'o) cpu_state" where
  "cpu_update_jit rnd ar optimizer self_tpu_state cpu_state' tpu_state' grad_acc_no =
     (let grad = ts_grad self_tpu_state;
          grad = tree_map (\<lambda>a. array_div ar a grad_acc_no) grad;
          (updates, new_opt_state) = opt_update optimizer grad (cs_opt_state cpu_state')
      in case apply_updates rnd ar (cs_params cpu_state') updates of
           Inl e \<Rightarrow> Inl e
         | Inr new_params \<Rightarrow> Inr \<lparr>cs_opt_state = new_opt_state, cs_params = new_params\<rparr>)"

definition CausalTransformer_update ::
  "(dtype \<Rightarrow> 'v \<Rightarrow> 'v) \<Rightarrow> 'v arith \<Rightarrow> ('v, 'o) optimizer \<Rightarrow> ('v, 'o) CausalTransformer \<Rightarrow> int
   \<Rightarrow> error + ('v, 'o) CausalTransformer" where
  "CausalTransformer_update rnd ar optimizer self grad_acc_no =
     (case cpu_update_jit rnd ar optimizer (ct_tpu_state self) (ct_cpu_state self)
             (ct_tpu_state self) grad_acc_no of
        Inl e \<Rightarrow> Inl e
      | Inr new_cpu \<Rightarrow>
          Inr \<lparr>ct_tpu_state = set_tpu_state rnd ar (cs_params new_cpu) (ct_tpu_state self),
               ct_cpu_state = new_cpu\<rparr>)"

text \<open>
  The calls a driver makes after the construction, and their run in sequence; the run
  ends at the first call that raises.
\<close>

datatype ('c, 't) call = Train "'c list" "'t list" | Update int

fun run ::
  "(dtype \<Rightarrow> 'v \<Rightarrow> 'v) \<Rightarrow> 'v arith
   \<Rightarrow> (('v tree \<Rightarrow> 'c \<Rightarrow> 't \<Rightarrow> 'l) \<Rightarrow> 'v tree \<Rightarrow> 'c \<Rightarrow> 't \<Rightarrow> 'v tree)
   \<Rightarrow> ('v tree \<Rightarrow> 'c \<Rightarrow> 't \<Rightarrow> 'l)
   \<Rightarrow> ('v, 'o) optimizer \<Rightarrow> ('v, 'o) CausalTransformer \<Rightarrow> ('c, 't) call list
   \<Rightarrow> error + ('v, 'o) CausalTransformer" where
  "run rnd ar grad_op train_loss_fn optimizer self [] = Inr self"
| "run rnd ar grad_op train_loss_fn optimizer self (Train obs target # calls) =
     (case CausalTransformer_train rnd ar grad_op train_loss_fn self obs target of
        Inl e \<Rightarrow> Inl e
      | Inr (_, self') \<Rightarrow> run rnd ar grad_op train_loss_fn optimizer self' calls)"
| "run rnd ar grad_op train_loss_fn optimizer self (Update n # calls) =
     (case CausalTransformer_update rnd ar optimizer self n of
        Inl e \<Rightarrow> Inl e
      | Inr self' \<Rightarrow> run rnd ar grad_op train_loss_fn optimizer self' calls)"


section \<open>Shapes of trees and of layers\<close>




section \<open>Inputs on which the model is run\<close>

definition example_optimizer :: "(real, unit) optimizer" where
  "example_optimizer =
     \<lparr>opt_init = (\<lambda>_. ()),
      opt_update = (\<lambda>g s. (tree_map (\<lambda>a. \<lparr>arr_dtype = Float32,
                                               arr_data = map (\<lambda>v. - v / 8) (arr_data a)\<rparr>) g, s))\<rparr>"

definition example_initializers :: "nat \<Rightarrow> (string \<times> real list) list" where
  "example_initializers key = [(''w'', [1, 3/2])]"

definition example_params :: "real tree" where
  "example_params = [(''w'', \<lparr>arr_dtype = BFloat16, arr_data = [1, 3/2]\<rparr>)]"

definition example_loss :: "real tree \<Rightarrow> int list \<Rightarrow> int list \<Rightarrow> real" where
  "example_loss p c t = sum_list (concat (map (\<lambda>ka. map (\<lambda>v. v * v / 2) (arr_data (snd ka))) p))"

definition example_grad ::
  "(real tree \<Rightarrow> int list \<Rightarrow> int list \<Rightarrow> real) \<Rightarrow> real tree \<Rightarrow> int list \<Rightarrow> int list \<Rightarrow> real tree" where
  "example_grad f p c t = p"

definition example_state :: "real tpu_state" where
  "example_state =
     \<lparr>ts_params = example_params, ts_step = 0,
      ts_grad = [(''w'', \<lparr>arr_dtype = BFloat16, arr_data = [0, 0]\<rparr>)]\<rparr>"

definition example_trained :: "(real, unit) CausalTransformer" where
  "example_trained =
     \<lparr>ct_tpu_state =
        \<lparr>ts_params = example_params, ts_step = 1,
         ts_grad = [(''w'', \<lparr>arr_dtype = BFloat16, arr_data = [1, 3/2]\<rparr>)]\<rparr>,
      ct_cpu_state =
        \<lparr>cs_opt_state = (),
         cs_params = [(''w'', \<lparr>arr_dtype = Float32, arr_data = [1, 3/2]\<rparr>)]\<rparr>\<rparr>"

definition example_updated :: "(real, unit) CausalTransformer" where
  "example_updated =
     \<lparr>ct_tpu_state =
        \<lparr>ts_params = [(''w'', \<lparr>arr_dtype = BFloat16, arr_data = [7/8, 21/16]\<rparr>)],
         ts_step = 1,
         ts_grad = [(''w'', \<lparr>arr_dtype = BFloat16, arr_data = [0, 0]\<rparr>)]\<rparr>,
      ct_cpu_state =
        \<lparr>cs_opt_state = (),
         cs_params = [(''w'', \<lparr>arr_dtype = Float32, arr_data = [7/8, 21/16]\<rparr>)]\<rparr>\<rparr>"

definition example_projection :: ProjectionShard where
  "example_projection = \<lparr>pj_dim = 2, pj_dim_per_shard = 1, pj_shards = 2\<rparr>"

definition example_projection_params :: "projection_params list" where
  "example_projection_params =
     [\<lparr>pp_ln = \<lparr>ln_scale = [1], ln_offset = [0]\<rparr>, pp_proj = \<lparr>lin_w = [[1]], lin_b = [0]\<rparr>\<rparr>,
      \<lparr>pp_ln = \<lparr>ln_scale = [1], ln_offset = [0]\<rparr>, pp_proj = \<lparr>lin_w = [[2]], lin_b = [0]\<rparr>\<rparr>]"






definition example_layer :: TransformerLayerShard where
  "example_layer = \<lparr>tl_dim = 2, tl_dim_per_head = 2, tl_heads_per_shard = 1, tl_dim_per_shard = 2\<rparr>"

definition example_layer_params :: layer_params where
  "example_layer_params =
     \<lparr>lp_ln = \<lparr>ln_scale = [1, 1], ln_offset = [0, 0]\<rparr>,
      lp_q = [[1, 0], [0, 1]], lp_v = [[1, 0], [0, 1]], lp_k = [[1, 0], [0, 1]],
      lp_o = [[1, 0], [0, 1]],
      lp_dense_proj = \<lparr>lin_w = [[1, 0, 0, 0, 0, 0, 0, 0], [0, 1, 0, 0, 0, 0, 0, 0]],
                       lin_b = [0, 0, 0, 0, 0, 0, 0, 0]\<rparr>,
      lp_dense_proj_o = \<lparr>lin_w = [[1, 0], [0, 1], [0, 0], [0, 0], [0, 0], [0, 0], [0, 0], [0, 0]],
                         lin_b = [0, 0]\<rparr>\<rparr>"

definition example_head :: ProjectionShard where
  "example_head = \<lparr>pj_dim = 2, pj_dim_per_shard = 2, pj_shards = 1\<rparr>"

definition example_head_params :: "projection_params list" where
  "example_head_params =
     [\<lparr>pp_ln = \<lparr>ln_scale = [1, 1], ln_offset = [0, 0]\<rparr>,
       pp_proj = \<lparr>lin_w = [[1, 0], [1, 0]], lin_b = [0, 0]\<rparr>\<rparr>]"

text \<open>
  The feed-forward branch as the specification words it: the expanded intermediate is
  computed from the input of the block before the layer normalisation.
\<close>

definition dense_out_prenorm_spec :: "TransformerLayerShard \<Rightarrow> layer_params \<Rightarrow> mat \<Rightarrow> mat" where
  "dense_out_prenorm_spec c p x0 =
     (let dense_proj = map (Linear (tl_dim_per_shard c * 4) (lp_dense_proj p)) x0;
          dense_proj = map (map gelu) dense_proj
      in map (Linear (tl_dim c) (lp_dense_proj_o p)) dense_proj)"


section \<open>Properties of the precision casts\<close>

lemma tree_map_nth:
  "i < length t \<Longrightarrow> tree_map f t ! i = (fst (t ! i), f (snd (t ! i)))"
  by (simp add: tree_map_def case_prod_beta)

lemma tree_map_comp: "tree_map f (tree_map g t) = tree_map (\<lambda>x. f (g x)) t"
  by (simp add: tree_map_def case_prod_beta)

lemma length_tree_map [simp]: "length (tree_map f t) = length t"
  by (simp add: tree_map_def)

lemma keys_tree_map [simp]: "map fst (tree_map f t) = map fst t"
  by (simp add: tree_map_def case_prod_beta)

lemma arr_dtype_astype [simp]: "arr_dtype (astype rnd d x) = d"
  by (simp add: astype_def)

text \<open>
  Claim C9. For every parameter tree and every rounding, \<open>to_bf16\<close> passes a leaf that is
  already in the 16-bit format through unchanged, \<open>to_f32\<close> passes a leaf that is
  already in the 32-bit format through unchanged, and the narrow cast is idempotent:
  casting twice equals casting once.
\<close>

theorem precision_cast_passthrough_idempotent:
  "(\<forall>i<length t. arr_dtype (snd (t ! i)) = BFloat16 \<longrightarrow> to_bf16 rnd t ! i = t ! i)
   \<and> (\<forall>i<length t. arr_dtype (snd (t ! i)) = Float32 \<longrightarrow> to_f32 rnd t ! i = t ! i)
   \<and> to_bf16 rnd (to_bf16 rnd t) = to_bf16 rnd t"
proof (intro conjI allI impI)
  fix i assume "i < length t" "arr_dtype (snd (t ! i)) = BFloat16"
  then show "to_bf16 rnd t ! i = t ! i"
    by (simp add: to_bf16_def tree_map_nth)
next
  fix i assume "i < length t" "arr_dtype (snd (t ! i)) = Float32"
  then show "to_f32 rnd t ! i = t ! i"
    by (simp add: to_f32_def tree_map_nth)
next
  have "(\<lambda>x. if arr_dtype (if arr_dtype x = Float32 then astype rnd BFloat16 x else x) = Float32
              then astype rnd BFloat16 (if arr_dtype x = Float32 then astype rnd BFloat16 x else x)
              else (if arr_dtype x = Float32 then astype rnd BFloat16 x else x))
        = (\<lambda>x. if arr_dtype x = Float32 then astype rnd BFloat16 x else x)"
    by (rule ext) simp
  then show "to_bf16 rnd (to_bf16 rnd t) = to_bf16 rnd t"
    by (simp add: to_bf16_def tree_map_comp)
qed

theorem precision_cast_passthrough_idempotent_witness:
  "to_bf16 round128
     [(''w'', \<lparr>arr_dtype = BFloat16, arr_data = [3/2]\<rparr>),
      (''b'', \<lparr>arr_dtype = Float32, arr_data = [513/512]\<rparr>)] ! 0
     = (''w'', \<lparr>arr_dtype = BFloat16, arr_data = [3/2]\<rparr>)
   \<and> to_f32 round128
     [(''w'', \<lparr>arr_dtype = BFloat16, arr_data = [3/2]\<rparr>),
      (''b'', \<lparr>arr_dtype = Float32, arr_data = [513/512]\<rparr>)] ! 1
     = (''b'', \<lparr>arr_dtype = Float32, arr_data = [513/512]\<rparr>)
   \<and> to_bf16 round128
     [(''w'', \<lparr>arr_dtype = BFloat16, arr_data = [3/2]\<rparr>),
      (''b'', \<lparr>arr_dtype = Float32, arr_data = [513/512]\<rparr>)]
     = [(''w'', \<lparr>arr_dtype = BFloat16, arr_data = [3/2]\<rparr>),
        (''b'', \<lparr>arr_dtype = BFloat16, arr_data = [1]\<rparr>)]"
  using precision_cast_passthrough_idempotent
    [of "[(''w'', \<lparr>arr_dtype = BFloat16, arr_data = [3/2]\<rparr>),
          (''b'', \<lparr>arr_dtype = Float32, arr_data = [513/512]\<rparr>)]" round128]
  by (simp add: to_bf16_def to_f32_def tree_map_def astype_def round128_def round_def)


section \<open>Properties of the sharded embedding\<close>

lemma length_vecmat [simp]: "length (vecmat n x W) = n"
  by (simp add: vecmat_def)


lemma length_Linear [simp]: "length (lin_b p) = n \<Longrightarrow> length (Linear n p x) = n"
  by (simp add: Linear_def)


lemma length_concat_uniform:
  "\<forall>xs \<in> set xss. length xs = d \<Longrightarrow> length (concat xss) = length xss * d"
  by (induction xss) auto




lemma length_proj_out [simp]: "length (EmbeddingShard_proj_out m p s x) = length x"
  by (simp add: EmbeddingShard_proj_out_def)











section \<open>Properties of the sharded transformer block\<close>

lemma example_layer_init: "TransformerLayerShard_init 2 1 1 = Inr example_layer"
  by (simp add: TransformerLayerShard_init_def example_layer_def)

lemma attention_weights_mask_irrelevant:
  "attention_weights c p x (Some m) = attention_weights c p x (Some m')"
  by (simp add: attention_weights_def)

text \<open>
  Claim C1 fails on the code. The block tests \<open>mask is None\<close> where it means the
  opposite: a mask that is supplied is never added to the logits, and no mask is a type
  error. For two positions and the causal mask of the model stack, position 0 attends to
  position 1 with weight \<open>1/2\<close>.
\<close>

theorem attention_weights_ignore_causal_mask:
  "causal_mask 2 = [[0, - 100000000000], [0, 0]]
   \<and> attention_weights example_layer example_layer_params [[1, 3], [1, 3]]
         (Some (causal_mask 2)) = Inr [[[1 / 2, 1 / 2], [1 / 2, 1 / 2]]]
   \<and> attention_weights example_layer example_layer_params [[1, 3], [1, 3]] None
       = Inl TypeError"
proof (intro conjI)
  show "causal_mask 2 = [[0, - 100000000000], [0, 0]]"
    by (simp add: causal_mask_def upt_rec)
  show "attention_weights example_layer example_layer_params [[1, 3], [1, 3]]
         (Some (causal_mask 2)) = Inr [[[1 / 2, 1 / 2], [1 / 2, 1 / 2]]]"
    by (simp add: attention_weights_def example_layer_def example_layer_params_def Let_def
      LayerNorm_def Linear_nobias_def vecmat_def split_heads_def softmax_def vmax_def)
  show "attention_weights example_layer example_layer_params [[1, 3], [1, 3]] None
       = Inl TypeError"
    by (simp add: attention_weights_def)
qed

lemma gelu_1_pos: "0 < gelu 1"
proof -
  have "- 1 < tanh (sqrt (2 / pi) * (1 + 44715 / 1000000 * 1 ^ 3 :: real))"
    by (rule tanh_real_gt_neg1)
  then show ?thesis by (simp add: gelu_def)
qed

text \<open>
  Claim C5, as stated, fails: the feed-forward branch of the code differs from a branch
  computed from the input before the layer normalisation.
\<close>

theorem dense_branch_prenorm_counterexample:
  "dense_out example_layer example_layer_params [[1, 1]]
     \<noteq> dense_out_prenorm_spec example_layer example_layer_params [[1, 1]]"
proof -
  have a: "dense_out example_layer example_layer_params [[1, 1]] = [[0, 0]]"
    by (simp add: dense_out_def example_layer_def example_layer_params_def Let_def
      LayerNorm_def Linear_def vecmat_def gelu_def upt_rec)
  have b: "dense_out_prenorm_spec example_layer example_layer_params [[1, 1]]
      = [[gelu 1, gelu 1]]"
    by (simp add: dense_out_prenorm_spec_def example_layer_def example_layer_params_def Let_def
      Linear_def vecmat_def upt_rec)
  show ?thesis unfolding a b using gelu_1_pos by simp
qed

text \<open>
  Claim C5, amended. The feed-forward branch computes its expanded intermediate (of four
  times the shard's width) from the layer-normalised input, the one the attention branch
  uses, applies the nonlinearity and projects back to the full width with the shard's
  matrix; two inputs with the same normalisation have the same branch; the result of the
  block on a shard is the sum of the attention branch and this branch.
\<close>

theorem dense_branch_uses_normalised_input:
  "dense_out c p x0
     = map (\<lambda>xt. Linear (tl_dim c) (lp_dense_proj_o p)
                   (map gelu (Linear (tl_dim_per_shard c * 4) (lp_dense_proj p)
                                (LayerNorm (lp_ln p) xt)))) x0
   \<and> (map (LayerNorm (lp_ln p)) x0 = map (LayerNorm (lp_ln p)) x1
        \<longrightarrow> dense_out c p x0 = dense_out c p x1)
   \<and> (\<forall>out. TransformerLayerShard_local c p x0 (Some m) = Inr out
        \<longrightarrow> (\<exists>w. attention_weights c p x0 (Some m) = Inr w
                  \<and> out = madd (attn_out c p x0 w) (dense_out c p x0)))"
proof (intro conjI)
  show "dense_out c p x0
     = map (\<lambda>xt. Linear (tl_dim c) (lp_dense_proj_o p)
                   (map gelu (Linear (tl_dim_per_shard c * 4) (lp_dense_proj p)
                                (LayerNorm (lp_ln p) xt)))) x0"
    by (simp add: dense_out_def Let_def comp_def)
  show "map (LayerNorm (lp_ln p)) x0 = map (LayerNorm (lp_ln p)) x1
        \<longrightarrow> dense_out c p x0 = dense_out c p x1"
    by (simp add: dense_out_def Let_def)
  show "\<forall>out. TransformerLayerShard_local c p x0 (Some m) = Inr out
        \<longrightarrow> (\<exists>w. attention_weights c p x0 (Some m) = Inr w
                  \<and> out = madd (attn_out c p x0 w) (dense_out c p x0))"
    by (auto simp: TransformerLayerShard_local_def split: sum.splits)
qed

theorem dense_branch_uses_normalised_input_witness:
  "map (LayerNorm (lp_ln example_layer_params)) [[1, 1]]
     = map (LayerNorm (lp_ln example_layer_params)) [[2, 2]]
   \<and> dense_out example_layer example_layer_params [[1, 1]]
     = dense_out example_layer example_layer_params [[2, 2]]
   \<and> TransformerLayerShard_local example_layer example_layer_params [[1, 1]]
       (Some (causal_mask 1)) = Inr [[0, 0]]
   \<and> (\<exists>w. attention_weights example_layer example_layer_params [[1, 1]] (Some (causal_mask 1))
              = Inr w
            \<and> [[0, 0]] = madd (attn_out example_layer example_layer_params [[1, 1]] w)
                               (dense_out example_layer example_layer_params [[1, 1]]))"
proof -
  have h1: "map (LayerNorm (lp_ln example_layer_params)) [[1, 1]]
     = map (LayerNorm (lp_ln example_layer_params)) [[2, 2]]"
    by (simp add: example_layer_params_def LayerNorm_def Let_def)
  have h2: "TransformerLayerShard_local example_layer example_layer_params [[1, 1]]
       (Some (causal_mask 1)) = Inr [[0, 0]]"
    by (simp add: TransformerLayerShard_local_def attention_weights_def attn_out_def
      dense_out_def madd_def example_layer_def example_layer_params_def Let_def LayerNorm_def
      Linear_nobias_def Linear_def vecmat_def split_heads_def softmax_def vmax_def gelu_def
      upt_rec)
  note inst = dense_branch_uses_normalised_input
    [of example_layer example_layer_params "[[1, 1]]" "[[2, 2]]" "causal_mask 1"]
  from inst h1 have a: "dense_out example_layer example_layer_params [[1, 1]]
     = dense_out example_layer example_layer_params [[2, 2]]" by blast
  from inst h2 have b: "\<exists>w. attention_weights example_layer example_layer_params [[1, 1]]
                (Some (causal_mask 1)) = Inr w
            \<and> [[0, 0]] = madd (attn_out example_layer example_layer_params [[1, 1]] w)
                               (dense_out example_layer example_layer_params [[1, 1]])" by blast
  show ?thesis using h1 a h2 b by blast
qed


section \<open>Properties of the sharded loss\<close>

lemma vmax_Max: "xs \<noteq> [] \<Longrightarrow> vmax xs = Max (set xs)"
  by (cases xs) (simp_all add: vmax_def Max.set_eq_fold [symmetric])

lemma vmax_concat:
  assumes "rows \<noteq> []" "\<forall>r \<in> set rows. r \<noteq> []"
  shows "vmax (map vmax rows) = vmax (concat rows)"
proof -
  have "Max (set (map vmax rows)) = Max (set (concat rows))"
    using assms
  proof (induction rows rule: list_nonempty_induct)
    case (single r)
    then show ?case by (simp add: vmax_Max)
  next
    case (cons r rows)
    have c: "concat rows \<noteq> []" using cons.hyps cons.prems by (cases rows) auto
    have "Max (set (concat (r # rows))) = max (Max (set r)) (Max (set (concat rows)))"
      using cons.prems c by (simp add: Max_Un del: set_concat)
    moreover have "Max (set (map vmax (r # rows))) = max (vmax r) (Max (set (map vmax rows)))"
      using cons.hyps by (simp add: Max_insert)
    ultimately show ?case using cons by (simp add: vmax_Max)
  qed
  moreover have "concat rows \<noteq> []" using assms by (cases rows) auto
  ultimately show ?thesis using assms by (simp add: vmax_Max)
qed

lemma onehot_dot_vec:
  "sum_list (map2 (*) (map (\<lambda>idx. if idx = t then 1 else 0)
                           (map (\<lambda>i. int i + start) [0..<length v])) v)
   = (if start \<le> t \<and> t < start + int (length v) then v ! nat (t - start) else (0::real))"
proof (induction v rule: rev_induct)
  case Nil
  then show ?case by simp
next
  case (snoc a v)
  have "nat (t - start) = length v" if "int (length v) + start = t"
    using that by linarith
  moreover have "nat (t - start) < length v" if "start \<le> t" "t < start + int (length v)"
    using that by linarith
  ultimately show ?case
    using snoc.IH by (auto simp: nth_append)
qed

lemma owner_sum:
  assumes "\<forall>v \<in> set vs. length v = d"
  shows "sum_list (map (\<lambda>(v, s). if int s * int d \<le> t \<and> t < int s * int d + int d
                                  then v ! nat (t - int s * int d) else 0)
                      (zip vs [0..<length vs]))
         = (if 0 \<le> t \<and> t < int (length vs) * int d then concat vs ! nat t else (0::real))"
  using assms
proof (induction vs rule: rev_induct)
  case Nil
  then show ?case by simp
next
  case (snoc v vs)
  have len: "length (concat vs) = length vs * d"
    using snoc.prems length_concat_uniform [of vs d] by simp
  have lv: "length v = d" using snoc.prems by simp
  have IH: "sum_list (map (\<lambda>(v, s). if int s * int d \<le> t \<and> t < int s * int d + int d
                                  then v ! nat (t - int s * int d) else 0)
                      (zip vs [0..<length vs]))
         = (if 0 \<le> t \<and> t < int (length vs) * int d then concat vs ! nat t else (0::real))"
    using snoc by simp
  define n where "n = length vs * d"
  have n: "int (length vs) * int d = int n" by (simp add: n_def)
  show ?case
  proof (cases "0 \<le> t \<and> t < int n")
    case True
    then have "nat t < n" by linarith
    moreover have "\<not> int n \<le> t" using True by simp
    ultimately show ?thesis
      using True IH unfolding n by (simp add: nth_append len distrib_right n n_def [symmetric])
  next
    case False
    show ?thesis
    proof (cases "int n \<le> t \<and> t < int n + int d")
      case True
      then have "nat (t - int n) = nat t - n" by linarith
      moreover have "\<not> nat t < n" using True by linarith
      moreover have "0 \<le> t" using True by linarith
      ultimately show ?thesis
        using True False IH unfolding n
        by (simp add: nth_append len distrib_right n n_def [symmetric] lv)
    next
      case F2: False
      then show ?thesis
        using False IH unfolding n by (auto simp: distrib_right n)
    qed
  qed
qed

lemma across_nth:
  "vs \<noteq> [] \<Longrightarrow> t < length (hd vs) \<Longrightarrow> across f vs ! t = f (map (\<lambda>u. u ! t) vs)"
  by (cases vs) (simp_all add: across_def)

lemma length_across: "vs \<noteq> [] \<Longrightarrow> length (across f vs) = length (hd vs)"
  by (cases vs) (simp_all add: across_def)

lemma map2_replicate:
  "n = length xs \<Longrightarrow> map2 f xs (replicate n y) = map (\<lambda>x. f x y) xs"
  by (induction xs arbitrary: n) auto

lemma psum_nth:
  assumes "s < length vs" "t < length (hd vs)"
  shows "psum vs ! s ! t = sum_list (map (\<lambda>u. u ! t) vs)"
proof -
  have ne: "vs \<noteq> []" using assms(1) by auto
  have "psum vs ! s = across sum_list vs"
    unfolding psum_def using assms(1) by (rule nth_replicate)
  then show ?thesis using across_nth [OF ne assms(2)] by simp
qed

lemma naive_cross_entropy_eq:
  "naive_cross_entropy logits tgt
     = - (if 0 \<le> tgt \<and> tgt < int (length logits)
          then logits ! nat tgt - vmax logits
               - ln (sum_list (map (\<lambda>l. exp (l - vmax logits)) logits))
          else 0)"
proof -
  define lsm where "lsm = map (\<lambda>l. l - ln (sum_list (map exp (map (\<lambda>l. l - vmax logits) logits))))
                              (map (\<lambda>l. l - vmax logits) logits)"
  have len: "length lsm = length logits" by (simp add: lsm_def)
  have oh: "map (\<lambda>i. if int i = tgt then 1 else 0) [0..<length logits]
      = map (\<lambda>idx. if idx = tgt then 1 else (0::real)) (map (\<lambda>i. int i + 0) [0..<length lsm])"
    by (simp add: len)
  have "naive_cross_entropy logits tgt
      = - sum_list (map2 (*) (map (\<lambda>i. if int i = tgt then 1 else 0) [0..<length logits]) lsm)"
    by (simp add: naive_cross_entropy_def Let_def lsm_def)
  also have "\<dots> = - (if 0 \<le> tgt \<and> tgt < 0 + int (length lsm) then lsm ! nat (tgt - 0) else 0)"
    unfolding oh onehot_dot_vec by (rule refl)
  finally have e: "naive_cross_entropy logits tgt
      = - (if 0 \<le> tgt \<and> tgt < int (length logits) then lsm ! nat tgt else 0)"
    by (simp add: len)
  have "lsm ! nat tgt = logits ! nat tgt - vmax logits
               - ln (sum_list (map (\<lambda>l. exp (l - vmax logits)) logits))"
    if "0 \<le> tgt" "tgt < int (length logits)"
  proof -
    have "nat tgt < length logits" using that by linarith
    then show ?thesis by (simp add: lsm_def comp_def)
  qed
  then show ?thesis unfolding e by simp
qed

lemma sum_list_neg: "sum_list (map (\<lambda>x. - f x) xs) = - (sum_list (map f xs) :: real)"
  by (induction xs) auto

lemma sum_list_concat_map:
  "sum_list (map f (concat xss)) = sum_list (map (\<lambda>xs. sum_list (map f xs)) xss)"
  for f :: "real \<Rightarrow> real"
  by (induction xss) auto

lemma map_zip_upt:
  "map (\<lambda>(v, s). f v s) (zip vs [0..<length vs]) = map (\<lambda>s. f (vs ! s) s) [0..<length vs]"
proof (rule nth_equalityI)
  show "length (map (\<lambda>(v, s). f v s) (zip vs [0..<length vs]))
      = length (map (\<lambda>s. f (vs ! s) s) [0..<length vs])" by simp
  fix i assume "i < length (map (\<lambda>(v, s). f v s) (zip vs [0..<length vs]))"
  then show "map (\<lambda>(v, s). f v s) (zip vs [0..<length vs]) ! i
      = map (\<lambda>s. f (vs ! s) s) [0..<length vs] ! i" by simp
qed

text \<open>The loss of all shards as a function of the logits of all shards.\<close>

lemma loss_from_logits:
  fixes L :: "mat list" and d :: nat and targets :: "int list"
  assumes d: "0 < d" and ne: "L \<noteq> []"
    and rows: "\<forall>l \<in> set L. length l = length targets"
    and width: "\<forall>l \<in> set L. \<forall>row \<in> set l. length row = d"
    and s: "s < length L" and t: "t < length targets"
  defines "gt_onehot \<equiv>
              map (\<lambda>axis_index.
                     let shard_start_index = int axis_index * int d;
                         shard_index = map (\<lambda>i. int i + shard_start_index) [0..<d]
                     in map (\<lambda>tgt. map (\<lambda>idx. if idx = tgt then 1 else 0) shard_index)
                            targets)
                  [0..<length L]"
  defines "global_max \<equiv> pmax (map (map vmax) L)"
  defines "shifted \<equiv> map2 (\<lambda>lg gm. map2 (\<lambda>row m. map (\<lambda>l. l - m) row) lg gm) L global_max"
  defines "normalizer \<equiv> psum (map (map (\<lambda>row. sum_list (map exp row))) shifted)"
  defines "logsoftmax \<equiv> map2 (\<lambda>sh nz. map2 (\<lambda>row z. map (\<lambda>l. l - ln z) row) sh nz)
                              shifted normalizer"
  shows "psum (map2 (\<lambda>oh ls. map2 (\<lambda>g l. - sum_list (map2 (*) g l)) oh ls)
                           gt_onehot logsoftmax) ! s ! t
         = naive_cross_entropy (concat (map (\<lambda>l. l ! t) L)) (targets ! t)"
proof -
  define S where "S = length L"
  define T where "T = length targets"
  define full where "full = concat (map (\<lambda>l. l ! t) L)"
  define M where "M = vmax full"
  define Z where "Z = sum_list (map (\<lambda>l. exp (l - M)) full)"
  have lenrow: "length (L ! s') = T" if "s' < S" for s'
    using rows that by (simp add: S_def T_def)
  have hdL: "length (hd L) = T" using ne rows by (simp add: T_def)
  have wl: "length (l ! t') = d" if "l \<in> set L" "t' < T" for l t'
  proof -
    have "l ! t' \<in> set l" using that rows by (simp add: T_def)
    then show ?thesis using width that(1) by blast
  qed
  have w: "length (L ! s' ! t') = d" if "s' < S" "t' < T" for s' t'
    using wl [of "L ! s'" t'] that by (simp add: S_def)
  \<comment> \<open>the global maximum\<close>
  define gm where "gm = map (\<lambda>t. vmax (map (\<lambda>l. vmax (l ! t)) L)) [0..<T]"
  have gmax: "global_max = replicate S gm"
  proof -
    have "across vmax (map (map vmax) L) = gm"
    proof -
      have "across vmax (map (map vmax) L)
          = map (\<lambda>t. vmax (map (\<lambda>u. u ! t) (map (map vmax) L))) [0..<T]"
        using ne hdL by (cases L) (simp_all add: across_def)
      also have "\<dots> = gm"
        unfolding gm_def
      proof (rule map_cong [OF refl])
        fix t' assume "t' \<in> set [0..<T]"
        then have t': "t' < T" by simp
        have "map (\<lambda>u. u ! t') (map (map vmax) L) = map (\<lambda>l. vmax (l ! t')) L"
          using rows t' by (simp add: T_def)
        then show "vmax (map (\<lambda>u. u ! t') (map (map vmax) L)) = vmax (map (\<lambda>l. vmax (l ! t')) L)"
          by (rule arg_cong)
      qed
      finally show ?thesis .
    qed
    then show ?thesis by (simp add: global_max_def pmax_def S_def)
  qed
  have gm_t: "gm ! t = M"
  proof -
    have "map (\<lambda>l. l ! t) L \<noteq> []" using ne by simp
    moreover have "\<forall>r \<in> set (map (\<lambda>l. l ! t) L). r \<noteq> []"
      using wl [of _ t] t d by (auto simp: T_def)
    ultimately have "vmax (map vmax (map (\<lambda>l. l ! t) L)) = vmax (concat (map (\<lambda>l. l ! t) L))"
      by (rule vmax_concat)
    then show ?thesis using t by (simp add: gm_def T_def M_def full_def comp_def)
  qed
  \<comment> \<open>the shifted logits\<close>
  have sh: "shifted = map (\<lambda>lg. map2 (\<lambda>row m. map (\<lambda>l. l - m) row) lg gm) L"
    unfolding shifted_def gmax by (rule map2_replicate) (simp add: S_def)
  have sh_st: "shifted ! s' ! t = map (\<lambda>l. l - M) (L ! s' ! t)" if "s' < S" for s'
    using that t lenrow [OF that] gm_t by (simp add: sh S_def T_def gm_def)
  have len_sh: "length shifted = S" by (simp add: sh S_def)
  have len_sh_row: "length (shifted ! s') = T" if "s' < S" for s'
    using that lenrow [OF that] by (simp add: sh S_def gm_def)
  \<comment> \<open>the normalizer\<close>
  define E where "E = map (map (\<lambda>row. sum_list (map exp row))) shifted"
  have lenE: "length E = S" by (simp add: E_def len_sh)
  have E_ne: "E \<noteq> []" using ne lenE by (auto simp: S_def)
  have hdE: "length (hd E) = T"
  proof -
    have "hd E = E ! 0" using E_ne by (simp add: hd_conv_nth)
    moreover have "0 < S" using ne by (simp add: S_def)
    ultimately show ?thesis using len_sh_row [of 0] by (simp add: E_def len_sh)
  qed
  define nz where "nz = across sum_list E"
  have norm: "normalizer = replicate S nz"
    by (simp add: normalizer_def psum_def E_def [symmetric] nz_def lenE)
  have len_nz: "length nz = T" using length_across [OF E_ne] hdE by (simp add: nz_def)
  have nz_t: "nz ! t = Z"
  proof -
    have "nz ! t = sum_list (map (\<lambda>u. u ! t) E)"
      unfolding nz_def using E_ne t hdE by (intro across_nth) (simp_all add: T_def)
    also have "map (\<lambda>u. u ! t) E = map (\<lambda>s'. sum_list (map (\<lambda>l. exp (l - M)) (L ! s' ! t))) [0..<S]"
    proof (rule nth_equalityI)
      show "length (map (\<lambda>u. u ! t) E) = length (map (\<lambda>s'. sum_list (map (\<lambda>l. exp (l - M)) (L ! s' ! t))) [0..<S])"
        by (simp add: lenE)
      fix i assume "i < length (map (\<lambda>u. u ! t) E)"
      then have i: "i < S" by (simp add: lenE)
      have "E ! i ! t = sum_list (map exp (shifted ! i ! t))"
        using i t len_sh len_sh_row [OF i] by (simp add: E_def T_def)
      then show "map (\<lambda>u. u ! t) E ! i = map (\<lambda>s'. sum_list (map (\<lambda>l. exp (l - M)) (L ! s' ! t))) [0..<S] ! i"
        using i sh_st [OF i] by (simp add: lenE comp_def)
    qed
    also have "sum_list \<dots> = sum_list (map (\<lambda>l. exp (l - M)) (concat (map (\<lambda>l. l ! t) L)))"
    proof -
      have "map (\<lambda>s'. sum_list (map (\<lambda>l. exp (l - M)) (L ! s' ! t))) [0..<S]
          = map (\<lambda>l. sum_list (map (\<lambda>l. exp (l - M)) (l ! t))) L"
        unfolding S_def by (rule nth_equalityI) simp_all
      then show ?thesis by (simp add: sum_list_concat_map comp_def)
    qed
    finally show ?thesis by (simp add: Z_def full_def)
  qed
  \<comment> \<open>the log-probabilities\<close>
  have lsm: "logsoftmax = map (\<lambda>sh. map2 (\<lambda>row z. map (\<lambda>l. l - ln z) row) sh nz) shifted"
    unfolding logsoftmax_def norm by (rule map2_replicate) (simp add: len_sh)
  have lsm_st: "logsoftmax ! s' ! t = map (\<lambda>l. l - M - ln Z) (L ! s' ! t)" if "s' < S" for s'
    using that t len_sh len_sh_row [OF that] len_nz nz_t sh_st [OF that]
    by (simp add: lsm T_def comp_def)
  have len_lsm: "length logsoftmax = S" by (simp add: lsm len_sh)
  have len_lsm_row: "length (logsoftmax ! s') = T" if "s' < S" for s'
    using that len_sh len_sh_row [OF that] len_nz by (simp add: lsm)
  \<comment> \<open>the local losses\<close>
  define loc where "loc = map2 (\<lambda>oh ls. map2 (\<lambda>g l. - sum_list (map2 (*) g l)) oh ls)
                           gt_onehot logsoftmax"
  have len_oh: "length gt_onehot = S" by (simp add: gt_onehot_def S_def)
  have len_loc: "length loc = S" by (simp add: loc_def len_oh len_lsm)
  have loc_st: "loc ! s' ! t
      = - (if int s' * int d \<le> targets ! t \<and> targets ! t < int s' * int d + int d
           then L ! s' ! t ! nat (targets ! t - int s' * int d) - M - ln Z else 0)"
    if s': "s' < S" for s'
  proof -
    define v where "v = map (\<lambda>l. l - M - ln Z) (L ! s' ! t)"
    have lv: "length v = d" using w [OF s'] t by (simp add: v_def T_def)
    have oh: "gt_onehot ! s' ! t
        = map (\<lambda>idx. if idx = targets ! t then 1 else 0)
              (map (\<lambda>i. int i + int s' * int d) [0..<length v])"
      using s' t by (simp add: gt_onehot_def S_def Let_def lv)
    have "loc ! s' ! t = - sum_list (map2 (*) (gt_onehot ! s' ! t) (logsoftmax ! s' ! t))"
      using s' t len_oh len_lsm len_lsm_row [OF s']
      by (simp add: loc_def T_def gt_onehot_def S_def Let_def)
    also have "\<dots> = - (if int s' * int d \<le> targets ! t \<and> targets ! t < int s' * int d + int (length v)
           then v ! nat (targets ! t - int s' * int d) else 0)"
      unfolding oh lsm_st [OF s'] v_def [symmetric] onehot_dot_vec by (rule refl)
    also have "\<dots> = - (if int s' * int d \<le> targets ! t \<and> targets ! t < int s' * int d + int d
           then L ! s' ! t ! nat (targets ! t - int s' * int d) - M - ln Z else 0)"
    proof (cases "int s' * int d \<le> targets ! t \<and> targets ! t < int s' * int d + int d")
      case True
      then have "nat (targets ! t - int s' * int d) < d" by linarith
      then have "v ! nat (targets ! t - int s' * int d)
          = L ! s' ! t ! nat (targets ! t - int s' * int d) - M - ln Z"
        using w [OF s'] t by (simp add: v_def T_def)
      then show ?thesis using True by (simp add: lv)
    next
      case False
      then show ?thesis unfolding lv by auto
    qed
    finally show ?thesis .
  qed
  \<comment> \<open>the sum over the shards\<close>
  have loc_ne: "loc \<noteq> []" using ne len_loc by (auto simp: S_def)
  have hd_loc: "t < length (hd loc)"
  proof -
    have "0 < S" using ne by (simp add: S_def)
    then have "length (loc ! 0) = T"
      using len_oh len_lsm len_lsm_row [of 0]
      by (simp add: loc_def gt_onehot_def S_def Let_def T_def)
    then show ?thesis using t loc_ne by (simp add: hd_conv_nth T_def)
  qed
  define vs where "vs = map (\<lambda>l. map (\<lambda>x. x - M - ln Z) (l ! t)) L"
  have vs_len: "\<forall>v \<in> set vs. length v = d"
    using wl [of _ t] t by (auto simp: vs_def T_def)
  have "psum loc ! s ! t = sum_list (map (\<lambda>u. u ! t) loc)"
    using s hd_loc by (intro psum_nth) (simp_all add: len_loc S_def)
  also have "map (\<lambda>u. u ! t) loc
      = map (\<lambda>s'. - (if int s' * int d \<le> targets ! t \<and> targets ! t < int s' * int d + int d
           then vs ! s' ! nat (targets ! t - int s' * int d) else 0)) [0..<length vs]"
  proof (rule nth_equalityI)
    show "length (map (\<lambda>u. u ! t) loc) = length (map (\<lambda>s'. - (if int s' * int d \<le> targets ! t \<and> targets ! t < int s' * int d + int d
           then vs ! s' ! nat (targets ! t - int s' * int d) else 0)) [0..<length vs])"
      by (simp add: len_loc vs_def S_def)
    fix i assume "i < length (map (\<lambda>u. u ! t) loc)"
    then have i: "i < S" by (simp add: len_loc)
    have "vs ! i ! nat (targets ! t - int i * int d)
        = L ! i ! t ! nat (targets ! t - int i * int d) - M - ln Z"
      if "int i * int d \<le> targets ! t" "targets ! t < int i * int d + int d"
    proof -
      have "nat (targets ! t - int i * int d) < d" using that by linarith
      then show ?thesis using i w [OF i] t by (simp add: vs_def S_def T_def)
    qed
    then show "map (\<lambda>u. u ! t) loc ! i = map (\<lambda>s'. - (if int s' * int d \<le> targets ! t \<and> targets ! t < int s' * int d + int d
           then vs ! s' ! nat (targets ! t - int s' * int d) else 0)) [0..<length vs] ! i"
      using i loc_st [OF i] by (simp add: len_loc vs_def S_def)
  qed
  also have "sum_list \<dots>
      = - sum_list (map (\<lambda>(v, s'). if int s' * int d \<le> targets ! t \<and> targets ! t < int s' * int d + int d
           then v ! nat (targets ! t - int s' * int d) else 0) (zip vs [0..<length vs]))"
    unfolding map_zip_upt by (rule sum_list_neg)
  also have "\<dots> = - (if 0 \<le> targets ! t \<and> targets ! t < int (length vs) * int d
                       then concat vs ! nat (targets ! t) else 0)"
    unfolding owner_sum [OF vs_len] by (rule refl)
  finally have lhs: "psum loc ! s ! t
      = - (if 0 \<le> targets ! t \<and> targets ! t < int (length vs) * int d
           then concat vs ! nat (targets ! t) else 0)" .
  \<comment> \<open>the reference\<close>
  have len_full: "length full = length vs * d"
  proof -
    have "\<forall>r \<in> set (map (\<lambda>l. l ! t) L). length r = d"
      using wl [of _ t] t by (auto simp: T_def)
    then show ?thesis
      unfolding full_def using length_concat_uniform [of "map (\<lambda>l. l ! t) L" d]
      by (simp add: vs_def)
  qed
  have cv: "concat vs = map (\<lambda>x. x - M - ln Z) full"
    by (simp add: vs_def full_def map_concat comp_def)
  have rhs: "naive_cross_entropy full (targets ! t)
      = - (if 0 \<le> targets ! t \<and> targets ! t < int (length vs) * int d
           then concat vs ! nat (targets ! t) else 0)"
  proof (cases "0 \<le> targets ! t \<and> targets ! t < int (length vs) * int d")
    case True
    then have "nat (targets ! t) < length full"
      unfolding len_full by (metis nat_less_iff of_nat_mult)
    then show ?thesis
      using True unfolding naive_cross_entropy_eq
      by (simp add: cv len_full M_def [symmetric] Z_def [symmetric])
  next
    case False
    then show ?thesis unfolding naive_cross_entropy_eq len_full by auto
  qed
  show ?thesis
    using lhs rhs unfolding loc_def full_def by simp
qed

text \<open>
  Claim C2. With at least one shard, a non-empty slice per shard and one activation row
  per target on every shard, the loss of the three reductions (maximum, sum, sum) is, on
  every shard and at every position, the numerically stable log-softmax cross-entropy of
  the concatenation of the logit slices of all shards; all shards hold the same losses.
\<close>

theorem sharded_loss_equals_naive_cross_entropy:
  assumes d: "0 < pj_dim_per_shard c"
    and ne: "ps \<noteq> []" and len: "length xs = length ps"
    and rows: "\<forall>x \<in> set xs. length x = length targets"
    and bias: "\<forall>p \<in> set ps. length (lin_b (pp_proj p)) = pj_dim_per_shard c"
  shows "\<exists>losses. ProjectionShard_loss c ps xs targets = Inr losses
      \<and> length losses = length ps
      \<and> (\<forall>s<length ps. \<forall>s'<length ps. losses ! s = losses ! s')
      \<and> (\<forall>s<length ps. \<forall>t<length targets.
            losses ! s ! t
              = naive_cross_entropy
                  (concat (map (\<lambda>(p, x). Linear (pj_dim_per_shard c) (pp_proj p) (x ! t))
                               (zip ps xs)))
                  (targets ! t))"
proof -
  define dd where "dd = pj_dim_per_shard c"
  define L where "L = map (\<lambda>(p, x). map (Linear dd (pp_proj p)) x) (zip ps xs)"
  define gt_onehot where "gt_onehot =
              map (\<lambda>axis_index.
                     let shard_start_index = int axis_index * int dd;
                         shard_index = map (\<lambda>i. int i + shard_start_index) [0..<dd]
                     in map (\<lambda>tgt. map (\<lambda>idx. if idx = tgt then 1 else (0::real)) shard_index)
                            targets)
                  [0..<length L]"
  define global_max where "global_max = pmax (map (map vmax) L)"
  define shifted where "shifted = map2 (\<lambda>lg gm. map2 (\<lambda>row m. map (\<lambda>l. l - m) row) lg gm) L global_max"
  define normalizer where "normalizer = psum (map (map (\<lambda>row. sum_list (map exp row))) shifted)"
  define logsoftmax where "logsoftmax = map2 (\<lambda>sh nz. map2 (\<lambda>row z. map (\<lambda>l. l - ln z) row) sh nz)
                              shifted normalizer"
  define losses where "losses = psum (map2 (\<lambda>oh ls. map2 (\<lambda>g l. - sum_list (map2 (*) g l)) oh ls)
                           gt_onehot logsoftmax)"
  have lenL: "length L = length ps" using len by (simp add: L_def)
  have Lne: "L \<noteq> []" using ne lenL by auto
  have Lrows: "\<forall>l \<in> set L. length l = length targets"
    using rows by (auto simp: L_def dest: set_zip_rightD)
  have Lwidth: "\<forall>l \<in> set L. \<forall>row \<in> set l. length row = dd"
    using bias by (auto simp: L_def dd_def dest!: set_zip_leftD)
  have run: "ProjectionShard_loss c ps xs targets = Inr losses"
    using d
    by (simp add: ProjectionShard_loss_def Let_def losses_def logsoftmax_def normalizer_def
        shifted_def global_max_def gt_onehot_def L_def [symmetric] dd_def [symmetric] lenL)
  have len_losses: "length losses = length ps"
    by (simp add: losses_def psum_def logsoftmax_def shifted_def normalizer_def global_max_def
        pmax_def gt_onehot_def lenL)
  have same: "losses ! s = losses ! s'" if "s < length ps" "s' < length ps" for s s'
  proof -
    have "\<exists>v. losses = replicate (length ps) v"
      using len_losses unfolding losses_def psum_def by (metis length_replicate)
    then show ?thesis using that by auto
  qed
  have entry: "losses ! s ! t
      = naive_cross_entropy
          (concat (map (\<lambda>(p, x). Linear (pj_dim_per_shard c) (pp_proj p) (x ! t)) (zip ps xs)))
          (targets ! t)"
    if s: "s < length ps" and t: "t < length targets" for s t
  proof -
    have "losses ! s ! t = naive_cross_entropy (concat (map (\<lambda>l. l ! t) L)) (targets ! t)"
      unfolding losses_def logsoftmax_def normalizer_def shifted_def global_max_def gt_onehot_def
      using d Lne Lrows Lwidth s t
      by (intro loss_from_logits) (simp_all add: dd_def lenL)
    moreover have "map (\<lambda>l. l ! t) L
        = map (\<lambda>(p, x). Linear (pj_dim_per_shard c) (pp_proj p) (x ! t)) (zip ps xs)"
      unfolding L_def map_map
    proof (rule map_cong [OF refl])
      fix px assume "px \<in> set (zip ps xs)"
      then have "snd px \<in> set xs" by (metis in_set_zipE prod.collapse)
      then have "t < length (snd px)" using rows t by simp
      then show "((\<lambda>l. l ! t) \<circ> (\<lambda>(p, x). map (Linear dd (pp_proj p)) x)) px
           = (case px of (p, x) \<Rightarrow> Linear (pj_dim_per_shard c) (pp_proj p) (x ! t))"
        by (simp add: case_prod_beta dd_def)
    qed
    ultimately show ?thesis by simp
  qed
  show ?thesis
    using run len_losses same entry by blast
qed

theorem sharded_loss_equals_naive_cross_entropy_witness:
  "\<exists>losses. ProjectionShard_loss example_projection example_projection_params
               [[[1]], [[1]]] [1] = Inr losses
      \<and> length losses = length example_projection_params
      \<and> (\<forall>s<length example_projection_params. \<forall>s'<length example_projection_params.
            losses ! s = losses ! s')
      \<and> (\<forall>s<length example_projection_params. \<forall>t<length [1 :: int].
            losses ! s ! t
              = naive_cross_entropy
                  (concat (map (\<lambda>(p, x). Linear (pj_dim_per_shard example_projection)
                                             (pp_proj p) (x ! t))
                               (zip example_projection_params [[[1]], [[1]]])))
                  ([1] ! t))"
proof -
  have h1: "0 < pj_dim_per_shard example_projection" by (simp add: example_projection_def)
  have h2: "example_projection_params \<noteq> []" by (simp add: example_projection_params_def)
  have h3: "length [[[1 :: real]], [[1]]] = length example_projection_params"
    by (simp add: example_projection_params_def)
  have h4: "\<forall>x \<in> set [[[1 :: real]], [[1]]]. length x = length [1 :: int]" by simp
  have h5: "\<forall>p \<in> set example_projection_params.
              length (lin_b (pp_proj p)) = pj_dim_per_shard example_projection"
    by (simp add: example_projection_params_def example_projection_def)
  show ?thesis
    by (rule sharded_loss_equals_naive_cross_entropy [OF h1 h2 h3 h4 h5])
qed

lemma example_loss_value:
  "ProjectionShard_loss example_projection example_projection_params [[[1]], [[1]]] [1]
     = Inr [[ln (exp (- 1) + 1)], [ln (exp (- 1) + 1)]]"
  by (simp add: ProjectionShard_loss_def example_projection_def example_projection_params_def
      Let_def Linear_def vecmat_def pmax_def psum_def across_def vmax_def)

text \<open>
  Claim C4 fails on the code in its first part. The loss applies the projection to the
  activations as they come; only the call normalises them first. On one shard with the
  activation \<open>[1, 1]\<close> the loss is that of the logits \<open>[2, 0]\<close>, while the call yields the
  logits \<open>[0, 0]\<close>, whose cross-entropy is \<open>ln 2\<close>.
\<close>

theorem loss_skips_layer_norm:
  "ProjectionShard_loss example_head example_head_params [[[1, 1]]] [0]
     = Inr [[ln (1 + exp (- 2))]]
   \<and> ProjectionShard_call example_head example_head_params [[[1, 1]]] = [[[0, 0]]]
   \<and> naive_cross_entropy [0, 0] 0 = ln 2
   \<and> ln (1 + exp (- 2)) \<noteq> ln (2 :: real)"
proof (intro conjI)
  show "ProjectionShard_loss example_head example_head_params [[[1, 1]]] [0]
     = Inr [[ln (1 + exp (- 2))]]"
    by (simp add: ProjectionShard_loss_def example_head_def example_head_params_def
      Let_def Linear_def vecmat_def pmax_def psum_def across_def vmax_def upt_rec)
  show "ProjectionShard_call example_head example_head_params [[[1, 1]]] = [[[0, 0]]]"
    by (simp add: ProjectionShard_call_def example_head_def example_head_params_def
      Let_def Linear_def vecmat_def LayerNorm_def all_gather_def upt_rec)
  show "naive_cross_entropy [0, 0] 0 = ln 2"
    by (simp add: naive_cross_entropy_def Let_def vmax_def upt_rec)
  have "exp (- 2) < (1 :: real)" by simp
  then show "ln (1 + exp (- 2)) \<noteq> ln (2 :: real)"
    by (simp add: add_pos_pos)
qed


section \<open>Properties of the training state\<close>











lemma example_train_value:
  "train round128 (rounded_arith round128) example_grad example_loss example_state
     [[0, 1]] [[1, 2]]
   = Inr ([13 / 8],
          \<lparr>ts_params = example_params, ts_step = 1,
           ts_grad = [(''w'', \<lparr>arr_dtype = BFloat16, arr_data = [1, 3 / 2]\<rparr>)]\<rparr>)"
  by (simp add: train_def value_and_grad_def example_grad_def example_loss_def
      example_state_def example_params_def to_bf16_def tree_map_def pmean_batch_def
      array_add_def promote_types_def rounded_arith_def round128_def round_def Let_def)



lemma example_update_value:
  "CausalTransformer_update round128 (rounded_arith round128) example_optimizer example_trained 1
     = Inr example_updated"
  by (simp add: example_optimizer_def example_trained_def example_params_def to_bf16_def
    tree_map_def astype_def round128_def zeros_like_def array_add_def promote_types_def
    CausalTransformer_update_def cpu_update_jit_def apply_updates_def set_tpu_state_def
    array_div_def round_def example_updated_def rounded_arith_def Let_def)


text \<open>
  Claim C10. The result of \<open>cpu_update_jit\<close> does not depend on its parameter
  \<open>tpu_state\<close>: the gradient is read from the field of the enclosing object.
\<close>

theorem cpu_update_jit_ignores_tpu_state_argument:
  "cpu_update_jit rnd ar optimizer self_tpu_state cpu_state' t1 n
   = cpu_update_jit rnd ar optimizer self_tpu_state cpu_state' t2 n"
  by (simp add: cpu_update_jit_def)

lemma initialize_state:
  "ct_tpu_state (CausalTransformer_init rnd ar initializers optimizer key x)
     = \<lparr>ts_params = param_init_fn rnd initializers key x x, ts_step = 0,
        ts_grad = tree_map (zeros_like ar) (param_init_fn rnd initializers key x x)\<rparr>
   \<and> cs_params (ct_cpu_state (CausalTransformer_init rnd ar initializers optimizer key x))
     = to_f32 rnd (param_init_fn rnd initializers key x x)"
  by (simp add: CausalTransformer_init_def init_def cpu_init_jit_def Let_def)

lemma init_params_bfloat16:
  "\<forall>ka \<in> set (param_init_fn rnd initializers key x y). arr_dtype (snd ka) = BFloat16"
  by (auto simp: param_init_fn_def get_parameter_def EmbeddingShard_dtype_def)

lemma init_params_round_trip:
  assumes widen: "\<forall>v. rnd Float32 (rnd BFloat16 v) = rnd BFloat16 v"
    and narrow: "\<forall>v. rnd BFloat16 (rnd BFloat16 v) = rnd BFloat16 v"
  shows "to_bf16 rnd (to_f32 rnd (param_init_fn rnd initializers key x y))
           = param_init_fn rnd initializers key x y"
proof -
  have "map (rnd BFloat16) (map (rnd Float32) (map (rnd BFloat16) vs)) = map (rnd BFloat16) vs"
    for vs
    using widen narrow by simp
  then show ?thesis
    by (simp add: param_init_fn_def to_bf16_def to_f32_def tree_map_def get_parameter_def
        astype_def EmbeddingShard_dtype_def comp_def)
qed

lemma to_bf16_no_float32:
  "\<forall>ka \<in> set (to_bf16 rnd t). arr_dtype (snd ka) \<noteq> Float32"
  by (auto simp: to_bf16_def tree_map_def split: if_splits)

lemma update_resync:
  "CausalTransformer_update rnd ar optimizer self n = Inr self' \<Longrightarrow>
     ts_params (ct_tpu_state self') = to_bf16 rnd (cs_params (ct_cpu_state self'))"
  by (auto simp: CausalTransformer_update_def set_tpu_state_def split: sum.splits)

lemma train_keeps_params:
  "CausalTransformer_train rnd ar grad_op f self obs target = Inr (loss, self') \<Longrightarrow>
     ts_params (ct_tpu_state self') = ts_params (ct_tpu_state self)
     \<and> ct_cpu_state self' = ct_cpu_state self"
  by (auto simp: CausalTransformer_train_def train_def Let_def split: sum.splits)

lemma run_keeps_sync:
  "ts_params (ct_tpu_state self) = to_bf16 rnd (cs_params (ct_cpu_state self)) \<Longrightarrow>
   run rnd ar grad_op f optimizer self calls = Inr self' \<Longrightarrow>
   ts_params (ct_tpu_state self') = to_bf16 rnd (cs_params (ct_cpu_state self'))"
proof (induction calls arbitrary: self)
  case Nil
  then show ?case by simp
next
  case (Cons c calls)
  show ?case
  proof (cases c)
    case (Train obs target)
    with Cons.prems(2) obtain loss mid where
      step: "CausalTransformer_train rnd ar grad_op f self obs target = Inr (loss, mid)"
      and rest: "run rnd ar grad_op f optimizer mid calls = Inr self'"
      by (auto split: sum.splits)
    from train_keeps_params [OF step] Cons.prems(1)
    have "ts_params (ct_tpu_state mid) = to_bf16 rnd (cs_params (ct_cpu_state mid))" by simp
    then show ?thesis using rest by (rule Cons.IH)
  next
    case (Update n)
    with Cons.prems(2) obtain mid where
      step: "CausalTransformer_update rnd ar optimizer self n = Inr mid"
      and rest: "run rnd ar grad_op f optimizer mid calls = Inr self'"
      by (auto split: sum.splits)
    from update_resync [OF step] show ?thesis using rest by (rule Cons.IH)
  qed
qed

lemma example_run:
  "run round128 (rounded_arith round128) example_grad example_loss example_optimizer
     (CausalTransformer_init round128 (rounded_arith round128) example_initializers
        example_optimizer (42::nat) [[0::int, 1]])
     [Train [[0, 1]] [[1, 2]], Update 1] = Inr example_updated"
  by (simp add: CausalTransformer_init_def init_def cpu_init_jit_def param_init_fn_def
    get_parameter_def EmbeddingShard_dtype_def example_initializers_def
    example_optimizer_def to_f32_def to_bf16_def tree_map_def astype_def round128_def zeros_like_def
    CausalTransformer_train_def train_def value_and_grad_def example_grad_def example_loss_def
    pmean_batch_def array_add_def promote_types_def CausalTransformer_update_def
    cpu_update_jit_def apply_updates_def set_tpu_state_def array_div_def round_def
    example_updated_def rounded_arith_def Let_def)

lemma example_update_again:
  "CausalTransformer_update round128 (rounded_arith round128) example_optimizer example_updated 1
     = Inr example_updated"
  by (simp add: example_optimizer_def to_bf16_def tree_map_def astype_def round128_def
    zeros_like_def array_add_def promote_types_def CausalTransformer_update_def cpu_update_jit_def
    apply_updates_def set_tpu_state_def array_div_def round_def example_updated_def
    rounded_arith_def Let_def)

lemma round128_widen: "\<forall>v. round128 Float32 (round128 BFloat16 v) = round128 BFloat16 v"
  by (simp add: round128_def)

lemma round128_narrow: "\<forall>v. round128 BFloat16 (round128 BFloat16 v) = round128 BFloat16 v"
  by (simp add: round128_def)

text \<open>
  Claim C8. Let the rounding be such that a value of the 16-bit format is unchanged by
  the cast to 32 bits and by a second cast to 16 bits. Then in every state reached from
  the construction of the object by calls to \<open>train\<close> and \<open>update\<close>, in any order and with
  any counts, the accelerator parameters are the narrow cast of the host parameters of
  that state, no leaf of theirs is in the 32-bit format, and every further \<open>update\<close>
  that returns synchronises the two again. The state after the construction is the empty
  sequence of calls: its accelerator parameters are the initialiser's 16-bit tree
  (\<open>init_params_bfloat16\<close>) and its host parameters the wide cast of it
  (\<open>initialize_state\<close>), whose narrow cast is the tree again (\<open>init_params_round_trip\<close>).
\<close>

theorem accelerator_params_are_narrow_cast_of_host_params:
  assumes widen: "\<forall>v. rnd Float32 (rnd BFloat16 v) = rnd BFloat16 v"
    and narrow: "\<forall>v. rnd BFloat16 (rnd BFloat16 v) = rnd BFloat16 v"
    and run: "run rnd ar grad_op f optimizer
                (CausalTransformer_init rnd ar initializers optimizer key x) calls = Inr self"
  shows "ts_params (ct_tpu_state self) = to_bf16 rnd (cs_params (ct_cpu_state self))
     \<and> (\<forall>ka \<in> set (ts_params (ct_tpu_state self)). arr_dtype (snd ka) \<noteq> Float32)
     \<and> (\<forall>n self'. CausalTransformer_update rnd ar optimizer self n = Inr self' \<longrightarrow>
           ts_params (ct_tpu_state self') = to_bf16 rnd (cs_params (ct_cpu_state self')))"
proof (intro conjI)
  have "ts_params (ct_tpu_state (CausalTransformer_init rnd ar initializers optimizer key x))
      = to_bf16 rnd (cs_params (ct_cpu_state
          (CausalTransformer_init rnd ar initializers optimizer key x)))"
    using init_params_round_trip [OF widen narrow, of initializers key x x]
    by (simp add: CausalTransformer_init_def init_def cpu_init_jit_def Let_def)
  then show sync: "ts_params (ct_tpu_state self) = to_bf16 rnd (cs_params (ct_cpu_state self))"
    using run by (rule run_keeps_sync)
  show "\<forall>ka \<in> set (ts_params (ct_tpu_state self)). arr_dtype (snd ka) \<noteq> Float32"
    unfolding sync by (rule to_bf16_no_float32)
  show "\<forall>n self'. CausalTransformer_update rnd ar optimizer self n = Inr self' \<longrightarrow>
           ts_params (ct_tpu_state self') = to_bf16 rnd (cs_params (ct_cpu_state self'))"
    using update_resync by blast
qed

theorem accelerator_params_are_narrow_cast_of_host_params_witness:
  "run round128 (rounded_arith round128) example_grad example_loss example_optimizer
     (CausalTransformer_init round128 (rounded_arith round128) example_initializers
        example_optimizer (42::nat) [[0::int, 1]])
     [Train [[0, 1]] [[1, 2]], Update 1] = Inr example_updated
   \<and> ts_params (ct_tpu_state example_updated)
     = to_bf16 round128 (cs_params (ct_cpu_state example_updated))
   \<and> CausalTransformer_update round128 (rounded_arith round128) example_optimizer
       example_updated 1 = Inr example_updated"
proof -
  have "ts_params (ct_tpu_state example_updated)
     = to_bf16 round128 (cs_params (ct_cpu_state example_updated))"
    using accelerator_params_are_narrow_cast_of_host_params
          [OF round128_widen round128_narrow example_run]
    by (rule conjunct1)
  then show ?thesis using example_run example_update_again by simp
qed


end
